theory Spec2Isabelle
  imports Main "HOL-Library.Word"
begin

unbundle bit_operations_syntax

section \<open>Data model\<close>

text \<open>
  Go's fixed-width integers are words: \<open>+\<close> wraps around, \<open>unat\<close>/\<open>uint\<close> read a word
  as unsigned and \<open>sint\<close> as two's complement. A \<open>[]byte\<close> is a list of 8-bit words.
\<close>

type_synonym bytes = "8 word list"
type_synonym uint32 = "32 word"
type_synonym int32 = "32 word"
type_synonym uint64 = "64 word"
type_synonym int64 = "64 word"

text \<open>
  \<open>util.Uint256\<close> and \<open>util.Uint160\<close> are byte arrays of fixed size 32 and 20. They are
  kept here in big-endian order, so \<open>BytesBE\<close> is the representation itself.
\<close>

typedef Uint256 = "{bs :: 8 word list. length bs = 32}"
  by (rule exI [of _ "replicate 32 0"]) simp

typedef Uint160 = "{bs :: 8 word list. length bs = 20}"
  by (rule exI [of _ "replicate 20 0"]) simp

text \<open>
  Modelled from the spec: the stack items of package \<open>stackitem\<close>. The VM contract
  lists the typed items of the evaluation stack as integer (arbitrary precision),
  byte-string, array, map, boolean, null and interop wrapper. An interop item wraps a Go
  value by reference; the only wrapped values the handlers below inspect are pointers to
  \<open>StorageContext\<close> records, which are addresses into the heap of the state.
\<close>

datatype interop_value = StorageContextRef nat | OtherRef nat

datatype item =
    Null
  | Boolean bool
  | BigInteger int
  | ByteArray bytes
  | Array "item list"
  | Map "(item \<times> item) list"
  | Interop interop_value

text \<open>
  A Go \<open>error\<close> value. \<open>NotAStorageContext\<close> stands for the message
  \<open>fmt.Errorf("%T is not a StorageContext", stcInterface)\<close>, \<open>GasLimitExceeded\<close> for the
  package variable \<open>errGasLimitExceeded\<close>.
\<close>

datatype error = Error string | NotAStorageContext item | GasLimitExceeded

text \<open>
  What a call does: it returns a value, returns an error, or panics (a nil element
  dereferenced after popping an empty stack, a failed conversion in \<open>Element.Bytes\<close> or
  \<open>Element.BigInt\<close>). The VM recovers a panic and faults, as it does on an error.
\<close>

datatype 'a result = Ok 'a | Err error | Panic

definition faults :: "'a result \<Rightarrow> bool" where
  "faults r = (case r of Ok _ \<Rightarrow> False | _ \<Rightarrow> True)"

text \<open>\<open>StorageContext\<close>, as declared in the source.\<close>

record StorageContext =
  ID :: int32
  ReadOnly :: bool

text \<open>
  Modelled from the spec: the records of the packages \<open>transaction\<close>, \<open>block\<close> and
  \<open>state\<close>, with the fields the handlers read. The positional encodings of block and
  transaction name these fields; \<open>Hash()\<close> is a method there and a field here. A
  manifest is kept as its canonical JSON bytes.
\<close>

record Transaction =
  tx_Hash :: Uint256
  tx_Version :: "8 word"
  Nonce :: uint32
  Sender :: Uint160
  SystemFee :: int64
  NetworkFee :: int64
  ValidUntilBlock :: uint32
  tx_Script :: bytes

record Block =
  Block_Hash :: Uint256
  Block_Version :: uint32
  PrevHash :: Uint256
  MerkleRoot :: Uint256
  Timestamp :: uint64
  Block_Index :: uint32
  NextConsensus :: Uint160
  Transactions :: "Transaction list"

datatype Manifest = Manifest bytes

record Contract =
  Contract_ID :: int32
  Script :: bytes
  Contract_Manifest :: Manifest

record StorageItem =
  Value :: bytes
  IsConst :: bool

record NotificationEvent =
  ScriptHash :: Uint160
  Item :: item

text \<open>
  Modelled from the spec: the blockchain view \<open>ic.Chain\<close>, with \<open>BlockHeight()\<close>,
  \<open>GetHeaderHash(index)\<close> and \<open>GetBlock(hash)\<close>.
\<close>

record Chain =
  BlockHeight :: uint32
  GetHeaderHash :: "int \<Rightarrow> Uint256"
  Chain_GetBlock :: "Uint256 \<Rightarrow> Block option"

text \<open>
  Modelled from the spec: the data access layer \<open>ic.DAO\<close>. The DAO contract is a
  transactional view with lookups of blocks, transactions (with their height), contract
  states by script hash, and storage items by contract id and key; a lookup that finds
  nothing is an error (or a nil item), and \<open>PutStorageItem\<close> stores the item.
\<close>

record DAO =
  GetBlock :: "Uint256 \<Rightarrow> Block option"
  GetTransaction :: "Uint256 \<Rightarrow> (Transaction \<times> uint32) option"
  GetContractState :: "Uint160 \<Rightarrow> Contract option"
  storage :: "int32 \<times> bytes \<Rightarrow> StorageItem option"

definition GetStorageItem :: "DAO \<Rightarrow> int32 \<Rightarrow> bytes \<Rightarrow> StorageItem option" where
  "GetStorageItem d id' key = storage d (id', key)"

definition PutStorageItem :: "DAO \<Rightarrow> int32 \<Rightarrow> bytes \<Rightarrow> StorageItem \<Rightarrow> DAO" where
  "PutStorageItem d id' key si = d\<lparr>storage := (storage d)((id', key) \<mapsto> si)\<rparr>"

text \<open>
  Modelled from the spec: a frame of the VM's invocation stack, with its script, script
  hash and effective call flags (a call flag is a byte), and the gas budget of the VM.
\<close>

record Context =
  ctx_Script :: bytes
  ctx_ScriptHash :: Uint160
  CallFlags :: "8 word"

record Gas =
  GasLimit :: int64
  gasConsumed :: int64

text \<open>
  The state a handler works on: the fields of the interop context \<open>ic\<close> (\<open>Chain\<close>, \<open>DAO\<close>,
  \<open>Notifications\<close>, \<open>Invocations\<close>), the fields of the VM \<open>v\<close> (\<open>estack\<close>, \<open>istack\<close> with
  the current frame first, \<open>gas\<close>), and the heap, where the \<open>StorageContext\<close> records
  live that interop items point to. \<open>Invocations\<close> is a Go map to \<open>int\<close>, which reads 0
  at an absent key.
\<close>

record world =
  heap :: "StorageContext list"
  Chain :: Chain
  DAO :: DAO
  Notifications :: "NotificationEvent list"
  Invocations :: "Uint160 \<Rightarrow> 64 word"
  estack :: "item list"
  istack :: "Context list"
  gas :: Gas

text \<open>
  The parts of other packages that the handlers call and whose code is not at hand are
  parameters: the constants \<open>MaxTraceableBlocks\<close> (an untyped constant, converted to
  \<open>uint32\<close> where it is added to an index), \<open>StoragePrice\<close> and \<open>smartcontract.All\<close>; the
  conversions of a stack element (\<open>None\<close> when \<open>Bytes\<close> or \<open>BigInt\<close> panics); the
  canonical serializer (\<open>Inl\<close> the text of its error); the gas meter; the manifest's
  \<open>CanCall\<close> and the contract's \<open>HasStorage\<close>.
\<close>

record externals =
  MaxTraceableBlocks :: uint32
  StoragePrice :: int64
  All :: "8 word"
  Bytes :: "item \<Rightarrow> bytes option"
  BigInt :: "item \<Rightarrow> int option"
  TryBytes :: "item \<Rightarrow> error + bytes"
  SerializeItem :: "item \<Rightarrow> string + bytes"
  AddGas :: "Gas \<Rightarrow> int64 \<Rightarrow> bool \<times> Gas"
  CanCall :: "Manifest \<Rightarrow> Manifest \<Rightarrow> bytes \<Rightarrow> bool"
  HasStorage :: "Contract \<Rightarrow> bool"

definition MaxStorageKeyLen :: nat where
  "MaxStorageKeyLen = 1024"

section \<open>Traceability\<close>

text \<open>
  \<open>isTraceableBlock\<close>: both comparisons and the addition are on \<open>uint32\<close>, so the sum
  \<open>index+MaxTraceableBlocks\<close> is taken modulo \<open>2^32\<close>.
\<close>

definition isTraceableBlock :: "externals \<Rightarrow> world \<Rightarrow> uint32 \<Rightarrow> bool" where
  "isTraceableBlock x w index =
     (let height = BlockHeight (Chain w)
      in index \<le> height \<and> index + MaxTraceableBlocks x > height)"

section \<open>Stack access and conversions\<close>

text \<open>
  Modelled from the spec: the evaluation stack of the VM, with push and pop of typed
  items. \<open>v.Estack().Pop()\<close> returns nil on an empty stack, and every use of the
  element then panics; \<open>None\<close> is that panic. \<open>PopBytes\<close> is \<open>Pop().Bytes()\<close>,
  \<open>PopBigInt\<close> is \<open>Pop().BigInt()\<close>, \<open>PopItem\<close> is \<open>Pop().Item()\<close> (and
  \<open>Pop().Value()\<close>, whose type assertion the handlers make on the item). \<open>PushVal\<close> of
  an item pushes it; the handlers write the item that \<open>PushVal\<close> makes of a Go value: a
  byte string of a \<open>[]byte\<close>, an integer of an \<open>int\<close> or \<open>uint32\<close>.
\<close>

definition PopItem :: "item list \<Rightarrow> (item \<times> item list) option" where
  "PopItem s = (case s of [] \<Rightarrow> None | e # r \<Rightarrow> Some (e, r))"

definition PopBytes :: "externals \<Rightarrow> item list \<Rightarrow> (bytes \<times> item list) option" where
  "PopBytes x s =
     (case s of [] \<Rightarrow> None
      | e # r \<Rightarrow> (case Bytes x e of None \<Rightarrow> None | Some b \<Rightarrow> Some (b, r)))"

definition PopBigInt :: "externals \<Rightarrow> item list \<Rightarrow> (int \<times> item list) option" where
  "PopBigInt x s =
     (case s of [] \<Rightarrow> None
      | e # r \<Rightarrow> (case BigInt x e of None \<Rightarrow> None | Some n \<Rightarrow> Some (n, r)))"

text \<open>
  \<open>big.Int.Int64\<close> of the standard library keeps the low 64 bits of the magnitude and
  negates them for a negative number, which is the two's complement truncation.
\<close>

definition Int64 :: "int \<Rightarrow> int64" where
  "Int64 n = word_of_int n"

definition PushVal :: "item \<Rightarrow> world \<Rightarrow> world" where
  "PushVal i w = w\<lparr>estack := i # estack w\<rparr>"

definition BytesBE256 :: "Uint256 \<Rightarrow> bytes" where
  "BytesBE256 h = Rep_Uint256 h"

definition BytesBE160 :: "Uint160 \<Rightarrow> bytes" where
  "BytesBE160 h = Rep_Uint160 h"

text \<open>
  Modelled from the spec: a hash is decoded from exactly 32 (script hash: 20) big-endian
  bytes; any other length is an error.
\<close>

definition Uint256DecodeBytesBE :: "bytes \<Rightarrow> error + Uint256" where
  "Uint256DecodeBytesBE b =
     (if length b = 32 then Inr (Abs_Uint256 b) else Inl (Error ''expected 32 bytes''))"

definition Uint160DecodeBytesBE :: "bytes \<Rightarrow> error + Uint160" where
  "Uint160DecodeBytesBE b =
     (if length b = 20 then Inr (Abs_Uint160 b) else Inl (Error ''expected 20 bytes''))"

definition ErrKeyNotFound :: error where
  "ErrKeyNotFound = Error ''key not found''"

section \<open>Ledger lookups\<close>

definition getBlockHashFromElement :: "externals \<Rightarrow> Chain \<Rightarrow> item \<Rightarrow> Uint256 result" where
  "getBlockHashFromElement x bc element =
     (case Bytes x element of
        None \<Rightarrow> Panic
      | Some hashbytes \<Rightarrow>
          if length hashbytes \<le> 5 then
            (case BigInt x element of
               None \<Rightarrow> Panic
             | Some n \<Rightarrow>
                 let hashint = sint (Int64 n)
                 in if hashint < 0 \<or> hashint > 4294967295
                    then Err (Error ''bad block index'')
                    else Ok (GetHeaderHash bc hashint))
          else (case Uint256DecodeBytesBE hashbytes of
                  Inl err \<Rightarrow> Err err
                | Inr hash \<Rightarrow> Ok hash))"

definition blockToStackItem :: "Block \<Rightarrow> item" where
  "blockToStackItem b = Array
     [ByteArray (BytesBE256 (Block_Hash b)),
      BigInteger (uint (Block_Version b)),
      ByteArray (BytesBE256 (PrevHash b)),
      ByteArray (BytesBE256 (MerkleRoot b)),
      BigInteger (sint (Timestamp b)),
      BigInteger (uint (Block_Index b)),
      ByteArray (BytesBE160 (NextConsensus b)),
      BigInteger (int (length (Transactions b)))]"

definition transactionToStackItem :: "Transaction \<Rightarrow> item" where
  "transactionToStackItem t = Array
     [ByteArray (BytesBE256 (tx_Hash t)),
      BigInteger (uint (tx_Version t)),
      BigInteger (uint (Nonce t)),
      ByteArray (BytesBE160 (Sender t)),
      BigInteger (sint (SystemFee t)),
      BigInteger (sint (NetworkFee t)),
      BigInteger (uint (ValidUntilBlock t)),
      ByteArray (tx_Script t)]"

definition bcGetBlock :: "externals \<Rightarrow> world \<Rightarrow> unit result \<times> world" where
  "bcGetBlock x w =
     (case PopItem (estack w) of
        None \<Rightarrow> (Panic, w)
      | Some (e, s1) \<Rightarrow>
          (case getBlockHashFromElement x (Chain w) e of
             Panic \<Rightarrow> (Panic, w\<lparr>estack := s1\<rparr>)
           | Err err \<Rightarrow> (Err err, w\<lparr>estack := s1\<rparr>)
           | Ok hash \<Rightarrow>
               (case Chain_GetBlock (Chain w) hash of
                  None \<Rightarrow> (Ok (), w\<lparr>estack := Null # s1\<rparr>)
                | Some block \<Rightarrow>
                    if \<not> isTraceableBlock x w (Block_Index block)
                    then (Ok (), w\<lparr>estack := Null # s1\<rparr>)
                    else (Ok (), w\<lparr>estack := blockToStackItem block # s1\<rparr>))))"

text \<open>
  \<open>getTransactionAndHeight\<close> pops the hash bytes and asks the DAO; it returns the rest
  of the stack with its result.
\<close>

definition getTransactionAndHeight ::
  "externals \<Rightarrow> DAO \<Rightarrow> item list \<Rightarrow> (Transaction \<times> uint32) result \<times> item list" where
  "getTransactionAndHeight x cd s =
     (case PopBytes x s of
        None \<Rightarrow> (Panic, s)
      | Some (hashbytes, s1) \<Rightarrow>
          (case Uint256DecodeBytesBE hashbytes of
             Inl err \<Rightarrow> (Err err, s1)
           | Inr hash \<Rightarrow>
               (case GetTransaction cd hash of
                  None \<Rightarrow> (Err ErrKeyNotFound, s1)
                | Some (tx, h) \<Rightarrow> (Ok (tx, h), s1))))"

definition bcGetTransaction :: "externals \<Rightarrow> world \<Rightarrow> unit result \<times> world" where
  "bcGetTransaction x w =
     (case getTransactionAndHeight x (DAO w) (estack w) of
        (Panic, s1) \<Rightarrow> (Panic, w\<lparr>estack := s1\<rparr>)
      | (Err err, s1) \<Rightarrow> (Ok (), w\<lparr>estack := Null # s1\<rparr>)
      | (Ok (tx, h), s1) \<Rightarrow>
          if \<not> isTraceableBlock x w h
          then (Ok (), w\<lparr>estack := Null # s1\<rparr>)
          else (Ok (), w\<lparr>estack := transactionToStackItem tx # s1\<rparr>))"

definition bcGetTransactionFromBlock :: "externals \<Rightarrow> world \<Rightarrow> unit result \<times> world" where
  "bcGetTransactionFromBlock x w =
     (case PopItem (estack w) of
        None \<Rightarrow> (Panic, w)
      | Some (e, s1) \<Rightarrow>
          (case getBlockHashFromElement x (Chain w) e of
             Panic \<Rightarrow> (Panic, w\<lparr>estack := s1\<rparr>)
           | Err err \<Rightarrow> (Err err, w\<lparr>estack := s1\<rparr>)
           | Ok hash \<Rightarrow>
               (case GetBlock (DAO w) hash of
                  None \<Rightarrow> (Ok (), w\<lparr>estack := Null # s1\<rparr>)
                | Some block \<Rightarrow>
                    if \<not> isTraceableBlock x w (Block_Index block)
                    then (Ok (), w\<lparr>estack := Null # s1\<rparr>)
                    else
                      (case PopBigInt x s1 of
                         None \<Rightarrow> (Panic, w\<lparr>estack := s1\<rparr>)
                       | Some (n, s2) \<Rightarrow>
                           let index = sint (Int64 n)
                           in if index < 0 \<or> index \<ge> int (length (Transactions block))
                              then (Err (Error ''wrong transaction index''), w\<lparr>estack := s2\<rparr>)
                              else (Ok (), w\<lparr>estack :=
                                      ByteArray (BytesBE256 (tx_Hash (Transactions block ! nat index))) # s2\<rparr>)))))"

definition bcGetTransactionHeight :: "externals \<Rightarrow> world \<Rightarrow> unit result \<times> world" where
  "bcGetTransactionHeight x w =
     (case getTransactionAndHeight x (DAO w) (estack w) of
        (Panic, s1) \<Rightarrow> (Panic, w\<lparr>estack := s1\<rparr>)
      | (Err err, s1) \<Rightarrow> (Ok (), w\<lparr>estack := BigInteger (- 1) # s1\<rparr>)
      | (Ok (tx, h), s1) \<Rightarrow>
          if \<not> isTraceableBlock x w h
          then (Ok (), w\<lparr>estack := BigInteger (- 1) # s1\<rparr>)
          else (Ok (), w\<lparr>estack := BigInteger (uint h) # s1\<rparr>))"

section \<open>Storage contexts and storage operations\<close>

text \<open>
  Modelled from the spec: \<open>GetCurrentScriptHash\<close> and \<open>Context\<close> of the VM read the
  frame on top of the invocation stack; without a frame there is nothing to read and the
  call panics. A pointer is dereferenced in the heap; an address outside the heap cannot
  be made by the handlers, and reading one is a panic as well.
\<close>

definition Context_of :: "world \<Rightarrow> Context option" where
  "Context_of w = (case istack w of [] \<Rightarrow> None | c # _ \<Rightarrow> Some c)"

definition GetCurrentScriptHash :: "world \<Rightarrow> Uint160 option" where
  "GetCurrentScriptHash w = map_option ctx_ScriptHash (Context_of w)"

definition deref :: "world \<Rightarrow> nat \<Rightarrow> StorageContext option" where
  "deref w a = (if a < length (heap w) then Some (heap w ! a) else None)"

text \<open>\<open>&StorageContext{...}\<close> allocates a new record; its address is the next free one.\<close>

definition new_StorageContext :: "StorageContext \<Rightarrow> world \<Rightarrow> nat \<times> world" where
  "new_StorageContext sc w = (length (heap w), w\<lparr>heap := heap w @ [sc]\<rparr>)"

definition storageGetContext :: "externals \<Rightarrow> world \<Rightarrow> unit result \<times> world" where
  "storageGetContext x w =
     (case GetCurrentScriptHash w of
        None \<Rightarrow> (Panic, w)
      | Some h \<Rightarrow>
          (case GetContractState (DAO w) h of
             None \<Rightarrow> (Err ErrKeyNotFound, w)
           | Some contract \<Rightarrow>
               if \<not> HasStorage x contract
               then (Err (Error ''contract is not allowed to use storage''), w)
               else
                 let (sc, w1) = new_StorageContext \<lparr>ID = Contract_ID contract, ReadOnly = False\<rparr> w
                 in (Ok (), PushVal (Interop (StorageContextRef sc)) w1)))"

text \<open>
  In \<open>storageGetReadOnlyContext\<close> the branch for a contract without storage is
  \<open>return err\<close>, and \<open>err\<close> is nil there: the handler returns nil and pushes nothing.
\<close>

definition storageGetReadOnlyContext :: "externals \<Rightarrow> world \<Rightarrow> unit result \<times> world" where
  "storageGetReadOnlyContext x w =
     (case GetCurrentScriptHash w of
        None \<Rightarrow> (Panic, w)
      | Some h \<Rightarrow>
          (case GetContractState (DAO w) h of
             None \<Rightarrow> (Err ErrKeyNotFound, w)
           | Some contract \<Rightarrow>
               if \<not> HasStorage x contract
               then (Ok (), w)
               else
                 let (sc, w1) = new_StorageContext \<lparr>ID = Contract_ID contract, ReadOnly = True\<rparr> w
                 in (Ok (), PushVal (Interop (StorageContextRef sc)) w1)))"

text \<open>
  \<open>putWithContextAndFlags\<close>. \<open>sizeInc\<close> is an \<open>int\<close> and the product
  \<open>int64(sizeInc) * StoragePrice\<close> is an \<open>int64\<close>.
\<close>

definition putWithContextAndFlags ::
  "externals \<Rightarrow> world \<Rightarrow> StorageContext \<Rightarrow> bytes \<Rightarrow> bytes \<Rightarrow> bool \<Rightarrow> unit result \<times> world" where
  "putWithContextAndFlags x w stc key val isConst =
     (if length key > MaxStorageKeyLen then (Err (Error ''key is too big''), w)
      else if ReadOnly stc then (Err (Error ''StorageContext is read only''), w)
      else
        let si = (case GetStorageItem (DAO w) (ID stc) key of
                    None \<Rightarrow> \<lparr>Value = [], IsConst = False\<rparr>
                  | Some si0 \<Rightarrow> si0)
        in if IsConst si then (Err (Error ''storage item exists and is read-only''), w)
           else
             let sizeInc = (if length val > length (Value si)
                            then length val - length (Value si) else 1);
                 (ok, g) = AddGas x (gas w) (word_of_nat sizeInc * StoragePrice x)
             in if \<not> ok then (Err GasLimitExceeded, w\<lparr>gas := g\<rparr>)
                else (Ok (), w\<lparr>gas := g,
                               DAO := PutStorageItem (DAO w) (ID stc) key
                                        (si\<lparr>Value := val, IsConst := isConst\<rparr>)\<rparr>))"

definition storagePutInternal :: "externals \<Rightarrow> world \<Rightarrow> bool \<Rightarrow> unit result \<times> world" where
  "storagePutInternal x w getFlag =
     (case PopItem (estack w) of
        None \<Rightarrow> (Panic, w)
      | Some (stcInterface, s1) \<Rightarrow>
          (case stcInterface of
             Interop (StorageContextRef a) \<Rightarrow>
               (case PopBytes x s1 of
                  None \<Rightarrow> (Panic, w\<lparr>estack := s1\<rparr>)
                | Some (key, s2) \<Rightarrow>
                    (case PopBytes x s2 of
                       None \<Rightarrow> (Panic, w\<lparr>estack := s2\<rparr>)
                     | Some (val, s3) \<Rightarrow>
                         (case (if getFlag then PopBigInt x s3 else Some (0, s3)) of
                            None \<Rightarrow> (Panic, w\<lparr>estack := s3\<rparr>)
                          | Some (n, s4) \<Rightarrow>
                              (case deref w a of
                                 None \<Rightarrow> (Panic, w\<lparr>estack := s4\<rparr>)
                               | Some stc \<Rightarrow>
                                   putWithContextAndFlags x (w\<lparr>estack := s4\<rparr>) stc key val
                                     (Int64 n = 1)))))
           | _ \<Rightarrow> (Err (NotAStorageContext stcInterface), w\<lparr>estack := s1\<rparr>)))"

definition storagePut :: "externals \<Rightarrow> world \<Rightarrow> unit result \<times> world" where
  "storagePut x w = storagePutInternal x w False"

definition storagePutEx :: "externals \<Rightarrow> world \<Rightarrow> unit result \<times> world" where
  "storagePutEx x w = storagePutInternal x w True"

definition storageContextAsReadOnly :: "externals \<Rightarrow> world \<Rightarrow> unit result \<times> world" where
  "storageContextAsReadOnly x w =
     (case PopItem (estack w) of
        None \<Rightarrow> (Panic, w)
      | Some (stcInterface, s1) \<Rightarrow>
          (case stcInterface of
             Interop (StorageContextRef a) \<Rightarrow>
               (case deref w a of
                  None \<Rightarrow> (Panic, w\<lparr>estack := s1\<rparr>)
                | Some stc \<Rightarrow>
                    if \<not> ReadOnly stc then
                      let (stx, w1) = new_StorageContext \<lparr>ID = ID stc, ReadOnly = True\<rparr>
                                        (w\<lparr>estack := s1\<rparr>)
                      in (Ok (), PushVal (Interop (StorageContextRef stx)) w1)
                    else (Ok (), PushVal (Interop (StorageContextRef a)) (w\<lparr>estack := s1\<rparr>)))
           | _ \<Rightarrow> (Err (NotAStorageContext stcInterface), w\<lparr>estack := s1\<rparr>)))"

section \<open>Contract calls\<close>

text \<open>
  Modelled from the spec: \<open>LoadScriptWithHash(script, hash, flags)\<close> mounts a callee,
  a new frame on the invocation stack with that script, hash and call flags; the
  evaluation stack \<open>v.Estack()\<close> stays the one the handler pushes to.
\<close>

definition LoadScriptWithHash :: "bytes \<Rightarrow> Uint160 \<Rightarrow> 8 word \<Rightarrow> world \<Rightarrow> world" where
  "LoadScriptWithHash b hash f w =
     w\<lparr>istack := \<lparr>ctx_Script = b, ctx_ScriptHash = hash, CallFlags = f\<rparr> # istack w\<rparr>"

definition contractCallExInternal ::
  "externals \<Rightarrow> world \<Rightarrow> bytes \<Rightarrow> item \<Rightarrow> item \<Rightarrow> 8 word \<Rightarrow> unit result \<times> world" where
  "contractCallExInternal x w h method args f =
     (case Uint160DecodeBytesBE h of
        Inl err \<Rightarrow> (Err (Error ''invalid contract hash''), w)
      | Inr u \<Rightarrow>
          (case GetContractState (DAO w) u of
             None \<Rightarrow> (Err (Error ''contract not found''), w)
           | Some cs \<Rightarrow>
               (case TryBytes x method of
                  Inl err \<Rightarrow> (Err err, w)
                | Inr bs \<Rightarrow>
                    (case Context_of w of
                       None \<Rightarrow> (Panic, w)
                     | Some ctx \<Rightarrow>
                         if (case GetContractState (DAO w) (ctx_ScriptHash ctx) of
                               None \<Rightarrow> False
                             | Some curr' \<Rightarrow>
                                 \<not> CanCall x (Contract_Manifest curr') (Contract_Manifest cs) bs)
                         then (Err (Error ''disallowed method call''), w)
                         else
                           let w1 = w\<lparr>Invocations := (Invocations w)(u := Invocations w u + 1)\<rparr>;
                               w2 = LoadScriptWithHash (Script cs) u (CallFlags ctx AND f) w1
                           in (Ok (), PushVal method (PushVal args w2))))))"

definition contractCall :: "externals \<Rightarrow> world \<Rightarrow> unit result \<times> world" where
  "contractCall x w =
     (case PopBytes x (estack w) of
        None \<Rightarrow> (Panic, w)
      | Some (h, s1) \<Rightarrow>
          (case PopItem s1 of
             None \<Rightarrow> (Panic, w\<lparr>estack := s1\<rparr>)
           | Some (method, s2) \<Rightarrow>
               (case PopItem s2 of
                  None \<Rightarrow> (Panic, w\<lparr>estack := s2\<rparr>)
                | Some (args, s3) \<Rightarrow>
                    contractCallExInternal x (w\<lparr>estack := s3\<rparr>) h method args (All x))))"

text \<open>
  \<open>smartcontract.CallFlag(int32(... .Int64()))\<close>: a call flag is a byte, so the
  conversions keep the low 8 bits.
\<close>

definition contractCallEx :: "externals \<Rightarrow> world \<Rightarrow> unit result \<times> world" where
  "contractCallEx x w =
     (case PopBytes x (estack w) of
        None \<Rightarrow> (Panic, w)
      | Some (h, s1) \<Rightarrow>
          (case PopItem s1 of
             None \<Rightarrow> (Panic, w\<lparr>estack := s1\<rparr>)
           | Some (method, s2) \<Rightarrow>
               (case PopItem s2 of
                  None \<Rightarrow> (Panic, w\<lparr>estack := s2\<rparr>)
                | Some (args, s3) \<Rightarrow>
                    (case PopBigInt x s3 of
                       None \<Rightarrow> (Panic, w\<lparr>estack := s3\<rparr>)
                     | Some (n, s4) \<Rightarrow>
                         contractCallExInternal x (w\<lparr>estack := s4\<rparr>) h method args
                           (ucast (Int64 n))))))"

section \<open>Notifications\<close>

text \<open>\<open>[]byte(s)\<close> of a string: its bytes.\<close>

definition bytes_of_string :: "string \<Rightarrow> bytes" where
  "bytes_of_string s = map (\<lambda>c. word_of_nat (of_char c)) s"

definition runtimeNotify :: "externals \<Rightarrow> world \<Rightarrow> unit result \<times> world" where
  "runtimeNotify x w =
     (case PopItem (estack w) of
        None \<Rightarrow> (Panic, w)
      | Some (item0, s1) \<Rightarrow>
          let item1 = (case SerializeItem x item0 of
                         Inl err \<Rightarrow> ByteArray (bytes_of_string (''bad notification: '' @ err))
                       | Inr _ \<Rightarrow> item0)
          in (case GetCurrentScriptHash w of
                None \<Rightarrow> (Panic, w\<lparr>estack := s1\<rparr>)
              | Some h \<Rightarrow>
                  (Ok (), w\<lparr>estack := s1,
                           Notifications := Notifications w @ [\<lparr>ScriptHash = h, Item = item1\<rparr>]\<rparr>)))"

section \<open>The specification's conditions on a put\<close>

text \<open>
  These two definitions follow the words of the specification, to be compared with
  \<open>putWithContextAndFlags\<close>: the gas billed for a put is
  \<open>max(1, new_len - old_len) * StoragePrice\<close>, where the old length is 0 when no item
  is stored, and a put is refused when the handle is read-only, the key is longer than
  1024 bytes, the stored item is constant, or the bill is not accepted by the gas meter.
\<close>

definition spec_put_bill :: "externals \<Rightarrow> world \<Rightarrow> StorageContext \<Rightarrow> bytes \<Rightarrow> bytes \<Rightarrow> int64" where
  "spec_put_bill x w stc key val =
     word_of_int (max 1 (int (length val) -
        int (case GetStorageItem (DAO w) (ID stc) key of
               None \<Rightarrow> 0 | Some si \<Rightarrow> length (Value si)))) * StoragePrice x"

definition spec_put_refused :: "externals \<Rightarrow> world \<Rightarrow> StorageContext \<Rightarrow> bytes \<Rightarrow> bytes \<Rightarrow> bool" where
  "spec_put_refused x w stc key val =
     (ReadOnly stc \<or> length key > 1024 \<or>
      (case GetStorageItem (DAO w) (ID stc) key of None \<Rightarrow> False | Some si \<Rightarrow> IsConst si) \<or>
      \<not> fst (AddGas x (gas w) (spec_put_bill x w stc key val)))"

section \<open>A concrete configuration\<close>

text \<open>
  Concrete externals and a concrete state, on which the theorems below are
  instantiated: a chain with tip \<open>tip\<close>, one block with index \<open>i\<close> holding one
  transaction, one contract with id \<open>cid\<close> stored under the current script hash, one
  constant storage item, and a heap with a writable and a read-only storage context.
\<close>

definition test_externals :: externals where
  "test_externals =
     \<lparr>MaxTraceableBlocks = 200000,
      StoragePrice = 100000,
      All = 15,
      Bytes = (\<lambda>i. case i of ByteArray b \<Rightarrow> Some b | _ \<Rightarrow> None),
      BigInt = (\<lambda>i. case i of BigInteger n \<Rightarrow> Some n | _ \<Rightarrow> None),
      TryBytes = (\<lambda>i. case i of ByteArray b \<Rightarrow> Inr b | _ \<Rightarrow> Inl (Error ''not a byte array'')),
      SerializeItem = (\<lambda>i. case i of Interop _ \<Rightarrow> Inl ''interop item'' | _ \<Rightarrow> Inr []),
      AddGas = (\<lambda>g n. (sint (gasConsumed g + n) \<le> sint (GasLimit g),
                         g\<lparr>gasConsumed := gasConsumed g + n\<rparr>)),
      CanCall = (\<lambda>m1 m2 meth. meth \<noteq> [1]),
      HasStorage = (\<lambda>c. Contract_ID c \<noteq> 0)\<rparr>"

definition test_tx :: Transaction where
  "test_tx =
     \<lparr>tx_Hash = Abs_Uint256 (replicate 32 3), tx_Version = 0, Nonce = 7,
      Sender = Abs_Uint160 (replicate 20 2), SystemFee = 0, NetworkFee = 0,
      ValidUntilBlock = 100, tx_Script = [33]\<rparr>"

definition test_block :: "uint32 \<Rightarrow> Block" where
  "test_block i =
     \<lparr>Block_Hash = Abs_Uint256 (replicate 32 1), Block_Version = 0,
      PrevHash = Abs_Uint256 (replicate 32 0), MerkleRoot = Abs_Uint256 (replicate 32 0),
      Timestamp = 1000, Block_Index = i, NextConsensus = Abs_Uint160 (replicate 20 0),
      Transactions = [test_tx]\<rparr>"

definition test_contract :: "int32 \<Rightarrow> Contract" where
  "test_contract i = \<lparr>Contract_ID = i, Script = [33], Contract_Manifest = Manifest []\<rparr>"

definition test_world :: "uint32 \<Rightarrow> uint32 \<Rightarrow> int32 \<Rightarrow> item list \<Rightarrow> world" where
  "test_world tip i cid s =
     \<lparr>heap = [\<lparr>ID = 5, ReadOnly = False\<rparr>, \<lparr>ID = 5, ReadOnly = True\<rparr>],
      Chain = \<lparr>BlockHeight = tip,
               GetHeaderHash = (\<lambda>n. Abs_Uint256 (replicate 32 1)),
               Chain_GetBlock = (\<lambda>h. if BytesBE256 h = replicate 32 1
                                       then Some (test_block i) else None)\<rparr>,
      DAO = \<lparr>GetBlock = (\<lambda>h. if BytesBE256 h = replicate 32 1
                               then Some (test_block i) else None),
             GetTransaction = (\<lambda>h. if BytesBE256 h = replicate 32 3
                                     then Some (test_tx, i) else None),
             GetContractState = (\<lambda>h. if BytesBE160 h = replicate 20 2
                                       then Some (test_contract cid) else None),
             storage = (\<lambda>k. if k = (5, [9])
                              then Some \<lparr>Value = [1, 2], IsConst = True\<rparr> else None)\<rparr>,
      Notifications = [],
      Invocations = (\<lambda>u. 0),
      estack = s,
      istack = [\<lparr>ctx_Script = [33], ctx_ScriptHash = Abs_Uint160 (replicate 20 2),
                 CallFlags = 5\<rparr>],
      gas = \<lparr>GasLimit = 1000000, gasConsumed = 0\<rparr>\<rparr>"

section \<open>Basic facts\<close>

lemma BytesBE256_Abs: "length b = 32 \<Longrightarrow> BytesBE256 (Abs_Uint256 b) = b"
  by (simp add: BytesBE256_def Abs_Uint256_inverse)

lemma BytesBE160_Abs: "length b = 20 \<Longrightarrow> BytesBE160 (Abs_Uint160 b) = b"
  by (simp add: BytesBE160_def Abs_Uint160_inverse)

lemma length_BytesBE256: "length (BytesBE256 h) = 32"
  using Rep_Uint256 [of h] by (simp add: BytesBE256_def)

lemma getTransactionAndHeight_found:
  "Bytes x e = Some hb \<Longrightarrow> Uint256DecodeBytesBE hb = Inr th \<Longrightarrow>
   GetTransaction cd th = Some (t, ht) \<Longrightarrow>
   getTransactionAndHeight x cd (e # s) = (Ok (t, ht), s)"
  by (simp add: getTransactionAndHeight_def PopBytes_def)

lemma test_resolve_block:
  "getBlockHashFromElement test_externals (Chain (test_world tip i cid s))
     (ByteArray (replicate 32 1)) = Ok (Abs_Uint256 (replicate 32 1))"
  by (simp add: getBlockHashFromElement_def test_externals_def Uint256DecodeBytesBE_def)

section \<open>The traceability window\<close>

text \<open>
  As long as \<open>index + MaxTraceableBlocks\<close> stays below \<open>2^32\<close>, the predicate is the
  comparison of the exact integers.
\<close>

lemma isTraceableBlock_exact:
  "unat index + unat (MaxTraceableBlocks x) < 2 ^ 32 \<Longrightarrow>
   isTraceableBlock x w index \<longleftrightarrow>
     unat index \<le> unat (BlockHeight (Chain w)) \<and>
     unat index + unat (MaxTraceableBlocks x) > unat (BlockHeight (Chain w))"
  by (simp add: isTraceableBlock_def Let_def word_le_nat_alt word_less_nat_alt unat_word_ariths)

text \<open>
  Claim C1. The claim is that a block is traceable if and only if \<open>index \<le> tip\<close> and
  \<open>index + MaxTraceableBlocks > tip\<close> in exact integer arithmetic, so that the tip itself
  is always traceable. The sum is a \<open>uint32\<close> and wraps around: when the tip is
  \<open>2^32 - 1\<close>, the block at the tip is not traceable, whatever \<open>MaxTraceableBlocks\<close> is.
\<close>

theorem isTraceableBlock_tip_wraps:
  "\<not> isTraceableBlock x (w\<lparr>Chain := (Chain w)\<lparr>BlockHeight := 0xFFFFFFFF\<rparr>\<rparr>) 0xFFFFFFFF"
  by (simp add: isTraceableBlock_def Let_def word_less_nat_alt word_le_nat_alt unat_word_ariths)

section \<open>Ledger lookups of targets outside the window\<close>

text \<open>
  Claim C2, as stated: every one of the four lookups pushes a null item for a target
  that is not traceable. It fails for \<open>bcGetTransactionHeight\<close>: for a transaction at
  height 15 under tip 10 the handler succeeds and pushes the integer \<open>-1\<close>.
\<close>

theorem getTransactionHeight_pushes_minus_one:
  "\<not> isTraceableBlock test_externals (test_world 10 15 5 [ByteArray (replicate 32 3)]) 15 \<and>
   getTransactionAndHeight test_externals
       (DAO (test_world 10 15 5 [ByteArray (replicate 32 3)]))
       [ByteArray (replicate 32 3)] = (Ok (test_tx, 15), []) \<and>
   fst (bcGetTransactionHeight test_externals
          (test_world 10 15 5 [ByteArray (replicate 32 3)])) = Ok () \<and>
   estack (snd (bcGetTransactionHeight test_externals
          (test_world 10 15 5 [ByteArray (replicate 32 3)]))) = [BigInteger (- 1)] \<and>
   BigInteger (- 1) \<noteq> Null"
  by (simp add: bcGetTransactionHeight_def getTransactionAndHeight_def PopBytes_def
      Uint256DecodeBytesBE_def BytesBE256_Abs isTraceableBlock_def test_world_def
      test_externals_def)

text \<open>
  Claim C2, amended: for a target that is found and whose height is not traceable,
  \<open>bcGetBlock\<close>, \<open>bcGetTransactionFromBlock\<close> and \<open>bcGetTransaction\<close> return without
  error and push a null item in place of the popped target (the transaction index of
  \<open>bcGetTransactionFromBlock\<close> stays on the stack), and \<open>bcGetTransactionHeight\<close>
  returns without error and pushes the integer \<open>-1\<close>.
\<close>

theorem nontraceable_lookups:
  assumes "estack w = e # s"
  shows "(getBlockHashFromElement x (Chain w) e = Ok hash \<and>
          Chain_GetBlock (Chain w) hash = Some b \<and>
          \<not> isTraceableBlock x w (Block_Index b)
          \<longrightarrow> bcGetBlock x w = (Ok (), w\<lparr>estack := Null # s\<rparr>))
       \<and> (getBlockHashFromElement x (Chain w) e = Ok hash \<and>
          GetBlock (DAO w) hash = Some b' \<and>
          \<not> isTraceableBlock x w (Block_Index b')
          \<longrightarrow> bcGetTransactionFromBlock x w = (Ok (), w\<lparr>estack := Null # s\<rparr>))
       \<and> (Bytes x e = Some hb \<and> Uint256DecodeBytesBE hb = Inr th \<and>
          GetTransaction (DAO w) th = Some (t, ht) \<and>
          \<not> isTraceableBlock x w ht
          \<longrightarrow> bcGetTransaction x w = (Ok (), w\<lparr>estack := Null # s\<rparr>)
            \<and> bcGetTransactionHeight x w = (Ok (), w\<lparr>estack := BigInteger (- 1) # s\<rparr>))"
  using assms
  by (simp add: bcGetBlock_def bcGetTransactionFromBlock_def bcGetTransaction_def
      bcGetTransactionHeight_def PopItem_def getTransactionAndHeight_found)

theorem nontraceable_lookups_witness:
  "bcGetBlock test_externals (test_world 10 15 5 [ByteArray (replicate 32 1), BigInteger 0])
     = (Ok (), (test_world 10 15 5 [ByteArray (replicate 32 1), BigInteger 0])
                 \<lparr>estack := [Null, BigInteger 0]\<rparr>) \<and>
   bcGetTransactionFromBlock test_externals
       (test_world 10 15 5 [ByteArray (replicate 32 1), BigInteger 0])
     = (Ok (), (test_world 10 15 5 [ByteArray (replicate 32 1), BigInteger 0])
                 \<lparr>estack := [Null, BigInteger 0]\<rparr>) \<and>
   bcGetTransaction test_externals (test_world 10 15 5 [ByteArray (replicate 32 3)])
     = (Ok (), (test_world 10 15 5 [ByteArray (replicate 32 3)])\<lparr>estack := [Null]\<rparr>) \<and>
   bcGetTransactionHeight test_externals (test_world 10 15 5 [ByteArray (replicate 32 3)])
     = (Ok (), (test_world 10 15 5 [ByteArray (replicate 32 3)])
                 \<lparr>estack := [BigInteger (- 1)]\<rparr>)"
proof -
  let ?x = test_externals
  let ?w1 = "test_world 10 15 5 [ByteArray (replicate 32 1), BigInteger 0]"
  let ?w2 = "test_world 10 15 5 [ByteArray (replicate 32 3)]"
  have s1: "estack ?w1 = ByteArray (replicate 32 1) # [BigInteger 0]"
    by (simp add: test_world_def)
  have s2: "estack ?w2 = ByteArray (replicate 32 3) # []"
    by (simp add: test_world_def)
  have r1: "getBlockHashFromElement ?x (Chain ?w1) (ByteArray (replicate 32 1))
              = Ok (Abs_Uint256 (replicate 32 1))"
    by (rule test_resolve_block)
  have b1: "Chain_GetBlock (Chain ?w1) (Abs_Uint256 (replicate 32 1)) = Some (test_block 15)"
    by (simp add: test_world_def BytesBE256_Abs)
  have b2: "GetBlock (DAO ?w1) (Abs_Uint256 (replicate 32 1)) = Some (test_block 15)"
    by (simp add: test_world_def BytesBE256_Abs)
  have n1: "\<not> isTraceableBlock ?x ?w1 (Block_Index (test_block 15))"
    by (simp add: isTraceableBlock_def test_world_def test_block_def)
  have c2: "Bytes ?x (ByteArray (replicate 32 3)) = Some (replicate 32 3)"
    by (simp add: test_externals_def)
  have d2: "Uint256DecodeBytesBE (replicate 32 3) = Inr (Abs_Uint256 (replicate 32 3))"
    by (simp add: Uint256DecodeBytesBE_def)
  have t2: "GetTransaction (DAO ?w2) (Abs_Uint256 (replicate 32 3)) = Some (test_tx, 15)"
    by (simp add: test_world_def BytesBE256_Abs)
  have n2: "\<not> isTraceableBlock ?x ?w2 15"
    by (simp add: isTraceableBlock_def test_world_def)
  from nontraceable_lookups [OF s1, where x = "?x" and hash = "Abs_Uint256 (replicate 32 1)"
      and b = "test_block 15" and b' = "test_block 15"] r1 b1 b2 n1
  have A: "bcGetBlock ?x ?w1 = (Ok (), ?w1\<lparr>estack := [Null, BigInteger 0]\<rparr>) \<and>
           bcGetTransactionFromBlock ?x ?w1 = (Ok (), ?w1\<lparr>estack := [Null, BigInteger 0]\<rparr>)"
    by simp
  from nontraceable_lookups [OF s2, where x = "?x" and hb = "replicate 32 3"
      and th = "Abs_Uint256 (replicate 32 3)" and t = test_tx and ht = 15] c2 d2 t2 n2
  have B: "bcGetTransaction ?x ?w2 = (Ok (), ?w2\<lparr>estack := [Null]\<rparr>) \<and>
           bcGetTransactionHeight ?x ?w2 = (Ok (), ?w2\<lparr>estack := [BigInteger (- 1)]\<rparr>)"
    by simp
  from A B show ?thesis by simp
qed

section \<open>Properties of Put and PutEx\<close>

text \<open>
  The bill of the code is the bill of the specification, and with it the code is a chain
  of the four checks that ends in the write.
\<close>

lemma bill_eq:
  "(word_of_nat
      (if length val > length (Value (case og of None \<Rightarrow> \<lparr>Value = [], IsConst = False\<rparr>
                                       | Some si0 \<Rightarrow> si0))
       then length val - length (Value (case og of None \<Rightarrow> \<lparr>Value = [], IsConst = False\<rparr>
                                          | Some si0 \<Rightarrow> si0))
       else 1) :: int64)
   = word_of_int (max 1 (int (length val) -
        int (case og of None \<Rightarrow> 0 | Some si \<Rightarrow> length (Value si))))"
  by (cases og) (auto simp: max_def of_nat_diff Suc_le_eq)

lemma StorageItem_overwrite:
  "(si :: StorageItem)\<lparr>Value := v, IsConst := c\<rparr> = \<lparr>Value = v, IsConst = c\<rparr>"
  by (cases si) simp

lemma putWithContextAndFlags_alt:
  "putWithContextAndFlags x w stc key val c =
     (if length key > 1024 then (Err (Error ''key is too big''), w)
      else if ReadOnly stc then (Err (Error ''StorageContext is read only''), w)
      else if (case GetStorageItem (DAO w) (ID stc) key of
                 None \<Rightarrow> False | Some si \<Rightarrow> IsConst si)
      then (Err (Error ''storage item exists and is read-only''), w)
      else if \<not> fst (AddGas x (gas w) (spec_put_bill x w stc key val))
      then (Err GasLimitExceeded, w\<lparr>gas := snd (AddGas x (gas w) (spec_put_bill x w stc key val))\<rparr>)
      else (Ok (), w\<lparr>gas := snd (AddGas x (gas w) (spec_put_bill x w stc key val)),
                     DAO := PutStorageItem (DAO w) (ID stc) key \<lparr>Value = val, IsConst = c\<rparr>\<rparr>))"
  unfolding putWithContextAndFlags_def Let_def bill_eq spec_put_bill_def MaxStorageKeyLen_def
  by (cases "GetStorageItem (DAO w) (ID stc) key")
     (auto simp: StorageItem_overwrite split: prod.splits)

lemma putWithContextAndFlags_refused:
  assumes "spec_put_refused x w stc key val"
  shows "faults (fst (putWithContextAndFlags x w stc key val c)) \<and>
         DAO (snd (putWithContextAndFlags x w stc key val c)) = DAO w"
  using assms
  by (auto simp: putWithContextAndFlags_alt spec_put_refused_def faults_def)

lemma putWithContextAndFlags_written:
  assumes "\<not> spec_put_refused x w stc key val"
  shows "fst (putWithContextAndFlags x w stc key val c) = Ok () \<and>
         GetStorageItem (DAO (snd (putWithContextAndFlags x w stc key val c))) (ID stc) key
           = Some \<lparr>Value = val, IsConst = c\<rparr> \<and>
         gas (snd (putWithContextAndFlags x w stc key val c))
           = snd (AddGas x (gas w) (spec_put_bill x w stc key val))"
  using assms
  by (auto simp: putWithContextAndFlags_alt spec_put_refused_def GetStorageItem_def
      PutStorageItem_def)

lemma storagePut_unfold:
  assumes "estack w = Interop (StorageContextRef a) # ke # ve # s"
    and "deref w a = Some stc" and "Bytes x ke = Some key" and "Bytes x ve = Some val"
  shows "storagePut x w = putWithContextAndFlags x (w\<lparr>estack := s\<rparr>) stc key val False"
  using assms
  by (simp add: storagePut_def storagePutInternal_def PopItem_def PopBytes_def deref_def Int64_def)

lemma storagePutEx_unfold:
  assumes "estack w = Interop (StorageContextRef a) # ke # ve # fe # s"
    and "deref w a = Some stc" and "Bytes x ke = Some key" and "Bytes x ve = Some val"
    and "BigInt x fe = Some n"
  shows "storagePutEx x w = putWithContextAndFlags x (w\<lparr>estack := s\<rparr>) stc key val (Int64 n = 1)"
  using assms
  by (simp add: storagePutEx_def storagePutInternal_def PopItem_def PopBytes_def PopBigInt_def
      deref_def)

lemma spec_put_refused_estack [simp]:
  "spec_put_refused x (w\<lparr>estack := s\<rparr>) stc key val = spec_put_refused x w stc key val"
  by (simp add: spec_put_refused_def spec_put_bill_def)

text \<open>
  Claim C3. With a storage context \<open>stc\<close> behind the handle, key bytes \<open>key\<close> and
  value bytes \<open>val\<close> on the stack, \<open>storagePut\<close> and \<open>storagePutEx\<close> fault and
  leave the DAO (so the storage item) as it was when the handle is read-only, or the key
  is longer than 1024 bytes, or the item stored under the key is constant, or the gas
  meter refuses the bill of \<open>max(1, new_len - old_len) * StoragePrice\<close>; in every
  other case they return without error and the item under the key holds the value.
\<close>

theorem put_refused_or_written:
  assumes "deref w a = Some stc" and "Bytes x ke = Some key" and "Bytes x ve = Some val"
  shows "(estack w = Interop (StorageContextRef a) # ke # ve # s \<longrightarrow>
            (spec_put_refused x w stc key val \<longrightarrow>
               faults (fst (storagePut x w)) \<and> DAO (snd (storagePut x w)) = DAO w) \<and>
            (\<not> spec_put_refused x w stc key val \<longrightarrow>
               fst (storagePut x w) = Ok () \<and>
               map_option Value (GetStorageItem (DAO (snd (storagePut x w))) (ID stc) key)
                 = Some val))
       \<and> (estack w = Interop (StorageContextRef a) # ke # ve # fe # s' \<and> BigInt x fe = Some n \<longrightarrow>
            (spec_put_refused x w stc key val \<longrightarrow>
               faults (fst (storagePutEx x w)) \<and> DAO (snd (storagePutEx x w)) = DAO w) \<and>
            (\<not> spec_put_refused x w stc key val \<longrightarrow>
               fst (storagePutEx x w) = Ok () \<and>
               map_option Value (GetStorageItem (DAO (snd (storagePutEx x w))) (ID stc) key)
                 = Some val))"
proof (intro conjI impI)
  assume st: "estack w = Interop (StorageContextRef a) # ke # ve # s"
  note u = storagePut_unfold [OF st assms]
  { assume r: "spec_put_refused x w stc key val"
    from putWithContextAndFlags_refused [of x "w\<lparr>estack := s\<rparr>" stc key val False] r
    show "faults (fst (storagePut x w))" and "DAO (snd (storagePut x w)) = DAO w"
      by (simp_all add: u) }
  { assume r: "\<not> spec_put_refused x w stc key val"
    from putWithContextAndFlags_written [of x "w\<lparr>estack := s\<rparr>" stc key val False] r
    show "fst (storagePut x w) = Ok ()"
      and "map_option Value (GetStorageItem (DAO (snd (storagePut x w))) (ID stc) key) = Some val"
      by (simp_all add: u) }
next
  assume "estack w = Interop (StorageContextRef a) # ke # ve # fe # s' \<and> BigInt x fe = Some n"
  then have st: "estack w = Interop (StorageContextRef a) # ke # ve # fe # s'"
    and fl: "BigInt x fe = Some n" by simp_all
  note u = storagePutEx_unfold [OF st assms fl]
  { assume r: "spec_put_refused x w stc key val"
    from putWithContextAndFlags_refused [of x "w\<lparr>estack := s'\<rparr>" stc key val "Int64 n = 1"] r
    show "faults (fst (storagePutEx x w))" and "DAO (snd (storagePutEx x w)) = DAO w"
      by (simp_all add: u) }
  { assume r: "\<not> spec_put_refused x w stc key val"
    from putWithContextAndFlags_written [of x "w\<lparr>estack := s'\<rparr>" stc key val "Int64 n = 1"] r
    show "fst (storagePutEx x w) = Ok ()"
      and "map_option Value (GetStorageItem (DAO (snd (storagePutEx x w))) (ID stc) key) = Some val"
      by (simp_all add: u) }
qed

section \<open>Facts about the concrete configuration\<close>

lemma test_deref0: "deref (test_world tip i cid s) 0 = Some \<lparr>ID = 5, ReadOnly = False\<rparr>"
  by (simp add: deref_def test_world_def)

lemma test_deref1: "deref (test_world tip i cid s) (Suc 0) = Some \<lparr>ID = 5, ReadOnly = True\<rparr>"
  by (simp add: deref_def test_world_def)

lemma test_Bytes: "Bytes test_externals (ByteArray b) = Some b"
  by (simp add: test_externals_def)

lemma test_BigInt: "BigInt test_externals (BigInteger n) = Some n"
  by (simp add: test_externals_def)

lemma test_not_refused:
  "\<not> spec_put_refused test_externals (test_world tip i cid s) \<lparr>ID = 5, ReadOnly = False\<rparr> [8] [7, 7]"
  by (simp add: spec_put_refused_def spec_put_bill_def GetStorageItem_def test_world_def
      test_externals_def)

lemma test_refused:
  "spec_put_refused test_externals (test_world tip i cid s) \<lparr>ID = 5, ReadOnly = False\<rparr> [9] [7, 7]"
  by (simp add: spec_put_refused_def GetStorageItem_def test_world_def)

lemma test_current: "GetCurrentScriptHash (test_world tip i cid s) = Some (Abs_Uint160 (replicate 20 2))"
  by (simp add: GetCurrentScriptHash_def Context_of_def test_world_def)

lemma test_contract_state:
  "GetContractState (DAO (test_world tip i cid s)) (Abs_Uint160 (replicate 20 2))
     = Some (test_contract cid)"
  by (simp add: test_world_def BytesBE160_Abs)

lemma test_Context:
  "Context_of (test_world tip i cid s)
     = Some \<lparr>ctx_Script = [33], ctx_ScriptHash = Abs_Uint160 (replicate 20 2), CallFlags = 5\<rparr>"
  by (simp add: Context_of_def test_world_def)

lemma test_TryBytes: "TryBytes test_externals (ByteArray b) = Inr b"
  by (simp add: test_externals_def)

lemma test_decode160:
  "length b = 20 \<Longrightarrow> Uint160DecodeBytesBE b = Inr (Abs_Uint160 b)"
  by (simp add: Uint160DecodeBytesBE_def)

lemma test_no_contract:
  "GetContractState (DAO (test_world tip i cid s)) (Abs_Uint160 (replicate 20 9)) = None"
  by (simp add: test_world_def BytesBE160_Abs)

lemma test_call_ok:
  "fst (contractCallExInternal test_externals (test_world tip i cid s) (replicate 20 2)
          (ByteArray [2]) (Array []) f) = Ok ()"
  by (simp add: contractCallExInternal_def test_decode160 test_contract_state test_TryBytes
      test_Context Let_def) (simp add: test_externals_def)

lemma test_traceable: "isTraceableBlock test_externals (test_world 10 5 cid s) 5"
  by (simp add: isTraceableBlock_def test_world_def test_externals_def)

lemma test_not_traceable: "\<not> isTraceableBlock test_externals (test_world 10 15 cid s) 15"
  by (simp add: isTraceableBlock_def test_world_def test_externals_def)

lemma test_dao_block:
  "GetBlock (DAO (test_world tip i cid s)) (Abs_Uint256 (replicate 32 1)) = Some (test_block i)"
  by (simp add: test_world_def BytesBE256_Abs)

section \<open>Put and PutEx, instantiated\<close>

theorem put_refused_or_written_witness:
  "(fst (storagePut test_externals (test_world 10 5 5
        [Interop (StorageContextRef 0), ByteArray [8], ByteArray [7, 7], BigInteger 1])) = Ok () \<and>
    map_option Value (GetStorageItem (DAO (snd (storagePut test_externals (test_world 10 5 5
        [Interop (StorageContextRef 0), ByteArray [8], ByteArray [7, 7], BigInteger 1])))) 5 [8])
      = Some [7, 7]) \<and>
   (fst (storagePutEx test_externals (test_world 10 5 5
        [Interop (StorageContextRef 0), ByteArray [8], ByteArray [7, 7], BigInteger 1])) = Ok () \<and>
    map_option Value (GetStorageItem (DAO (snd (storagePutEx test_externals (test_world 10 5 5
        [Interop (StorageContextRef 0), ByteArray [8], ByteArray [7, 7], BigInteger 1])))) 5 [8])
      = Some [7, 7]) \<and>
   (faults (fst (storagePut test_externals (test_world 10 5 5
        [Interop (StorageContextRef 0), ByteArray [9], ByteArray [7, 7], BigInteger 1]))) \<and>
    DAO (snd (storagePut test_externals (test_world 10 5 5
        [Interop (StorageContextRef 0), ByteArray [9], ByteArray [7, 7], BigInteger 1])))
      = DAO (test_world 10 5 5
        [Interop (StorageContextRef 0), ByteArray [9], ByteArray [7, 7], BigInteger 1])) \<and>
   (faults (fst (storagePutEx test_externals (test_world 10 5 5
        [Interop (StorageContextRef 0), ByteArray [9], ByteArray [7, 7], BigInteger 1]))) \<and>
    DAO (snd (storagePutEx test_externals (test_world 10 5 5
        [Interop (StorageContextRef 0), ByteArray [9], ByteArray [7, 7], BigInteger 1])))
      = DAO (test_world 10 5 5
        [Interop (StorageContextRef 0), ByteArray [9], ByteArray [7, 7], BigInteger 1]))"
proof -
  let ?x = test_externals
  let ?wa = "test_world 10 5 5
        [Interop (StorageContextRef 0), ByteArray [8], ByteArray [7, 7], BigInteger 1]"
  let ?wb = "test_world 10 5 5
        [Interop (StorageContextRef 0), ByteArray [9], ByteArray [7, 7], BigInteger 1]"
  let ?stc = "\<lparr>ID = 5, ReadOnly = False\<rparr>"
  have sa3: "estack ?wa = Interop (StorageContextRef 0) # ByteArray [8] # ByteArray [7, 7] # [BigInteger 1]"
    and sa4: "estack ?wa = Interop (StorageContextRef 0) # ByteArray [8] # ByteArray [7, 7] # BigInteger 1 # []"
    and sb3: "estack ?wb = Interop (StorageContextRef 0) # ByteArray [9] # ByteArray [7, 7] # [BigInteger 1]"
    and sb4: "estack ?wb = Interop (StorageContextRef 0) # ByteArray [9] # ByteArray [7, 7] # BigInteger 1 # []"
    by (simp_all add: test_world_def)
  from put_refused_or_written [OF test_deref0 test_Bytes test_Bytes,
      where s = "[BigInteger 1]" and s' = "[]" and fe = "BigInteger 1" and n = 1]
    sa3 sa4 test_BigInt [of 1] test_not_refused [of 10 5 5]
  have A: "(fst (storagePut ?x ?wa) = Ok () \<and>
            map_option Value (GetStorageItem (DAO (snd (storagePut ?x ?wa))) 5 [8]) = Some [7, 7]) \<and>
           (fst (storagePutEx ?x ?wa) = Ok () \<and>
            map_option Value (GetStorageItem (DAO (snd (storagePutEx ?x ?wa))) 5 [8]) = Some [7, 7])"
    by simp
  from put_refused_or_written [OF test_deref0 test_Bytes test_Bytes,
      where s = "[BigInteger 1]" and s' = "[]" and fe = "BigInteger 1" and n = 1]
    sb3 sb4 test_BigInt [of 1] test_refused [of 10 5 5]
  have B: "(faults (fst (storagePut ?x ?wb)) \<and> DAO (snd (storagePut ?x ?wb)) = DAO ?wb) \<and>
           (faults (fst (storagePutEx ?x ?wb)) \<and> DAO (snd (storagePutEx ?x ?wb)) = DAO ?wb)"
    by simp
  from A B show ?thesis by simp
qed

section \<open>The constant marker of PutEx\<close>






section \<open>Read-only storage contexts\<close>

text \<open>
  Claim C5. For a handle that points to the storage context \<open>h\<close>,
  \<open>storageContextAsReadOnly\<close> returns without error and pushes, in place of the
  popped handle, a handle to a context that is read-only and has the id of \<open>h\<close>: the
  same handle when \<open>h\<close> is read-only already, a newly allocated record otherwise. The
  record behind the input handle, like every record allocated before the call, is the
  same after the call as before.
\<close>

theorem asReadOnly_derives:
  assumes "estack w = Interop (StorageContextRef a) # s"
    and "deref w a = Some h"
  shows "fst (storageContextAsReadOnly x w) = Ok ()
       \<and> estack (snd (storageContextAsReadOnly x w))
           = Interop (StorageContextRef (if ReadOnly h then a else length (heap w))) # s
       \<and> map_option ReadOnly (deref (snd (storageContextAsReadOnly x w))
                                  (if ReadOnly h then a else length (heap w))) = Some True
       \<and> map_option ID (deref (snd (storageContextAsReadOnly x w))
                            (if ReadOnly h then a else length (heap w))) = Some (ID h)
       \<and> deref (snd (storageContextAsReadOnly x w)) a = Some h
       \<and> (\<forall>b < length (heap w). deref (snd (storageContextAsReadOnly x w)) b = deref w b)"
  using assms
  by (auto simp: storageContextAsReadOnly_def PopItem_def new_StorageContext_def PushVal_def
      deref_def nth_append split: if_splits)

theorem asReadOnly_derives_witness:
  "(fst (storageContextAsReadOnly test_externals
          (test_world 10 5 5 [Interop (StorageContextRef 0)])) = Ok () \<and>
    estack (snd (storageContextAsReadOnly test_externals
          (test_world 10 5 5 [Interop (StorageContextRef 0)]))) = [Interop (StorageContextRef 2)] \<and>
    deref (snd (storageContextAsReadOnly test_externals
          (test_world 10 5 5 [Interop (StorageContextRef 0)]))) 0
      = Some \<lparr>ID = 5, ReadOnly = False\<rparr> \<and>
    map_option ReadOnly (deref (snd (storageContextAsReadOnly test_externals
          (test_world 10 5 5 [Interop (StorageContextRef 0)]))) 2) = Some True \<and>
    map_option ID (deref (snd (storageContextAsReadOnly test_externals
          (test_world 10 5 5 [Interop (StorageContextRef 0)]))) 2) = Some 5) \<and>
   (fst (storageContextAsReadOnly test_externals
          (test_world 10 5 5 [Interop (StorageContextRef 1)])) = Ok () \<and>
    estack (snd (storageContextAsReadOnly test_externals
          (test_world 10 5 5 [Interop (StorageContextRef 1)]))) = [Interop (StorageContextRef 1)] \<and>
    deref (snd (storageContextAsReadOnly test_externals
          (test_world 10 5 5 [Interop (StorageContextRef 1)]))) 1
      = Some \<lparr>ID = 5, ReadOnly = True\<rparr>)"
proof -
  let ?w = "test_world 10 5 5 [Interop (StorageContextRef 0)]"
  let ?v = "test_world 10 5 5 [Interop (StorageContextRef 1)]"
  have st: "estack ?w = Interop (StorageContextRef 0) # []"
    and sv: "estack ?v = Interop (StorageContextRef 1) # []"
    by (simp_all add: test_world_def)
  have l: "length (heap ?w) = 2"
    by (simp add: test_world_def)
  have d1: "deref ?v 1 = Some \<lparr>ID = 5, ReadOnly = True\<rparr>"
    using test_deref1 [of 10 5 5 "[Interop (StorageContextRef 1)]"] by simp
  from asReadOnly_derives [OF st test_deref0, of test_externals]
  have A: "fst (storageContextAsReadOnly test_externals ?w) = Ok () \<and>
    estack (snd (storageContextAsReadOnly test_externals ?w)) = [Interop (StorageContextRef 2)] \<and>
    deref (snd (storageContextAsReadOnly test_externals ?w)) 0
      = Some \<lparr>ID = 5, ReadOnly = False\<rparr> \<and>
    map_option ReadOnly (deref (snd (storageContextAsReadOnly test_externals ?w)) 2) = Some True \<and>
    map_option ID (deref (snd (storageContextAsReadOnly test_externals ?w)) 2) = Some 5"
    by (simp add: l)
  from asReadOnly_derives [OF sv d1, of test_externals]
  have B: "fst (storageContextAsReadOnly test_externals ?v) = Ok () \<and>
    estack (snd (storageContextAsReadOnly test_externals ?v)) = [Interop (StorageContextRef 1)] \<and>
    deref (snd (storageContextAsReadOnly test_externals ?v)) 1
      = Some \<lparr>ID = 5, ReadOnly = True\<rparr>"
    by simp
  from A B show ?thesis by simp
qed

text \<open>
  Claim C9. When the contract stored under the current script hash lacks the storage
  feature, \<open>storageGetReadOnlyContext\<close> returns nil, the null value of Go's \<open>error\<close>,
  without a fault and without a handle: nothing is pushed and nothing is allocated, the
  state is the one before the call. \<open>storageGetContext\<close> fails in the same situation
  with the error "contract is not allowed to use storage", and changes nothing either.
\<close>

theorem storage_context_without_storage:
  assumes "GetCurrentScriptHash w = Some h"
    and "GetContractState (DAO w) h = Some c"
    and "\<not> HasStorage x c"
  shows "storageGetReadOnlyContext x w = (Ok (), w)
       \<and> fst (storageGetContext x w) = Err (Error ''contract is not allowed to use storage'')
       \<and> snd (storageGetContext x w) = w"
  using assms by (simp add: storageGetReadOnlyContext_def storageGetContext_def)

theorem storage_context_without_storage_witness:
  "storageGetReadOnlyContext test_externals (test_world 10 5 0 [BigInteger 42])
     = (Ok (), test_world 10 5 0 [BigInteger 42]) \<and>
   fst (storageGetContext test_externals (test_world 10 5 0 [BigInteger 42]))
     = Err (Error ''contract is not allowed to use storage'')"
proof -
  have "\<not> HasStorage test_externals (test_contract 0)"
    by (simp add: test_externals_def test_contract_def)
  from storage_context_without_storage [OF test_current test_contract_state this]
  show ?thesis by simp
qed

section \<open>Properties of contract calls\<close>

lemma contractCall_unfold:
  assumes "estack w = he # method # args # s" and "Bytes x he = Some h"
  shows "contractCall x w = contractCallExInternal x (w\<lparr>estack := s\<rparr>) h method args (All x)"
  using assms by (simp add: contractCall_def PopBytes_def PopItem_def)

lemma contractCallEx_unfold:
  assumes "estack w = he # method # args # fe # s" and "Bytes x he = Some h"
    and "BigInt x fe = Some n"
  shows "contractCallEx x w
           = contractCallExInternal x (w\<lparr>estack := s\<rparr>) h method args (ucast (Int64 n))"
  using assms by (simp add: contractCallEx_def PopBytes_def PopItem_def PopBigInt_def)

text \<open>
  Claim C6. In a call made from the frame \<open>ctx\<close>: if a contract state is stored
  under the hash of \<open>ctx\<close>, the call succeeds only if the target is decoded and found,
  the method converts to bytes and the caller's manifest allows the call, and a call that
  the manifest disallows fails with "disallowed method call" and changes nothing; a call
  whose target hash is not a script hash or has no stored contract state fails and
  changes nothing; if no contract state is stored under the hash of \<open>ctx\<close>, the call
  of a stored target with a method that converts to bytes succeeds whatever \<open>CanCall\<close>
  would say.
\<close>

theorem call_acl:
  assumes "Context_of w = Some ctx"
  shows "(GetContractState (DAO w) (ctx_ScriptHash ctx) = Some caller \<and>
          fst (contractCallExInternal x w h meth args f) = Ok ()
          \<longrightarrow> (\<exists>u cs bs. Uint160DecodeBytesBE h = Inr u \<and>
                 GetContractState (DAO w) u = Some cs \<and> TryBytes x meth = Inr bs \<and>
                 CanCall x (Contract_Manifest caller) (Contract_Manifest cs) bs))
       \<and> (Uint160DecodeBytesBE h = Inr u \<and> GetContractState (DAO w) u = Some cs \<and>
          TryBytes x meth = Inr bs \<and>
          GetContractState (DAO w) (ctx_ScriptHash ctx) = Some caller \<and>
          \<not> CanCall x (Contract_Manifest caller) (Contract_Manifest cs) bs
          \<longrightarrow> contractCallExInternal x w h meth args f
                = (Err (Error ''disallowed method call''), w))
       \<and> ((case Uint160DecodeBytesBE h of Inl _ \<Rightarrow> True
            | Inr u' \<Rightarrow> GetContractState (DAO w) u' = None)
          \<longrightarrow> faults (fst (contractCallExInternal x w h meth args f)) \<and>
              snd (contractCallExInternal x w h meth args f) = w)
       \<and> (Uint160DecodeBytesBE h = Inr u \<and> GetContractState (DAO w) u = Some cs \<and>
          TryBytes x meth = Inr bs \<and>
          GetContractState (DAO w) (ctx_ScriptHash ctx) = None
          \<longrightarrow> fst (contractCallExInternal x w h meth args f) = Ok ())"
  using assms
  by (auto simp: contractCallExInternal_def faults_def Let_def
      split: sum.splits option.splits if_splits)

theorem call_acl_witness:
  "CanCall test_externals (Contract_Manifest (test_contract 5))
      (Contract_Manifest (test_contract 5)) [2] \<and>
   contractCallExInternal test_externals (test_world 10 5 5 []) (replicate 20 2)
       (ByteArray [1]) (Array []) 15
     = (Err (Error ''disallowed method call''), test_world 10 5 5 []) \<and>
   faults (fst (contractCallExInternal test_externals (test_world 10 5 5 []) (replicate 20 9)
       (ByteArray [2]) (Array []) 15)) \<and>
   fst (contractCallExInternal test_externals
       ((test_world 10 5 5 [])\<lparr>istack :=
          [\<lparr>ctx_Script = [], ctx_ScriptHash = Abs_Uint160 (replicate 20 9), CallFlags = 15\<rparr>]\<rparr>)
       (replicate 20 2) (ByteArray [1]) (Array []) 15) = Ok ()"
proof -
  let ?x = test_externals
  let ?w = "test_world 10 5 5 []"
  let ?c = "\<lparr>ctx_Script = [33], ctx_ScriptHash = Abs_Uint160 (replicate 20 2), CallFlags = 5\<rparr>"
  let ?c' = "\<lparr>ctx_Script = [], ctx_ScriptHash = Abs_Uint160 (replicate 20 9), CallFlags = 15\<rparr>"
  let ?w' = "?w\<lparr>istack := [?c']\<rparr>"
  have d2: "Uint160DecodeBytesBE (replicate 20 2) = Inr (Abs_Uint160 (replicate 20 2))"
    and d9: "Uint160DecodeBytesBE (replicate 20 9) = Inr (Abs_Uint160 (replicate 20 9))"
    by (simp_all add: test_decode160)
  have cs: "GetContractState (DAO ?w) (ctx_ScriptHash ?c) = Some (test_contract 5)"
    using test_contract_state [of 10 5 5 "[]"] by simp
  have deny: "\<not> CanCall ?x (Contract_Manifest (test_contract 5))
                 (Contract_Manifest (test_contract 5)) [1]"
    by (simp add: test_externals_def)
  have ctx: "Context_of ?w = Some ?c"
    by (rule test_Context)
  have A: "CanCall ?x (Contract_Manifest (test_contract 5)) (Contract_Manifest (test_contract 5)) [2]"
    using call_acl [OF ctx, where x = "?x" and h = "replicate 20 2"
        and meth = "ByteArray [2]" and args = "Array []" and f = 15
        and caller = "test_contract 5"] cs test_call_ok [of 10 5 5 "[]" 15] d2
      test_contract_state [of 10 5 5 "[]"] test_TryBytes [of "[2]"]
    by auto
  have B: "contractCallExInternal ?x ?w (replicate 20 2) (ByteArray [1]) (Array []) 15
             = (Err (Error ''disallowed method call''), ?w)"
    using call_acl [OF ctx, where x = "?x" and h = "replicate 20 2"
        and u = "Abs_Uint160 (replicate 20 2)" and cs = "test_contract 5" and bs = "[1]"
        and meth = "ByteArray [1]" and caller = "test_contract 5" and args = "Array []"
        and f = 15]
      d2 cs test_contract_state [of 10 5 5 "[]"] test_TryBytes [of "[1]"] deny
    by simp
  have C: "faults (fst (contractCallExInternal ?x ?w (replicate 20 9) (ByteArray [2]) (Array []) 15))"
    using call_acl [OF ctx, where x = "?x" and h = "replicate 20 9"
        and meth = "ByteArray [2]" and args = "Array []"
        and f = 15]
      d9 test_no_contract [of 10 5 5 "[]"]
    by simp
  have ctx': "Context_of ?w' = Some ?c'"
    by (simp add: Context_of_def)
  have dao': "DAO ?w' = DAO ?w"
    by simp
  have D: "fst (contractCallExInternal ?x ?w' (replicate 20 2) (ByteArray [1]) (Array []) 15) = Ok ()"
    using call_acl [OF ctx', where x = "?x" and h = "replicate 20 2"
        and u = "Abs_Uint160 (replicate 20 2)" and cs = "test_contract 5" and bs = "[1]"
        and meth = "ByteArray [1]" and args = "Array []" and f = 15]
      d2 test_contract_state [of 10 5 5 "[]"] test_no_contract [of 10 5 5 "[]"]
      test_TryBytes [of "[1]"]
    by (simp add: dao')
  from A B C D show ?thesis by simp
qed

text \<open>
  Claim C7. After a successful call of the contract \<open>cs\<close> stored under \<open>u\<close> from the
  frame \<open>ctx\<close>, the invocation stack has a new frame on top with the script of \<open>cs\<close>,
  the hash \<open>u\<close> and the call flags of \<open>ctx\<close> intersected bitwise with the requested
  flags; the invocation counter of \<open>u\<close> is one more than before and no other counter
  has changed; and the evaluation stack is the one before the call with the arguments
  pushed first and the method pushed on top of them, and nothing else. The DAO and the
  notifications are untouched.
\<close>

theorem call_effects:
  assumes "Context_of w = Some ctx"
    and "Uint160DecodeBytesBE h = Inr u"
    and "GetContractState (DAO w) u = Some cs"
    and "fst (contractCallExInternal x w h meth args f) = Ok ()"
  shows "istack (snd (contractCallExInternal x w h meth args f))
           = \<lparr>ctx_Script = Script cs, ctx_ScriptHash = u, CallFlags = CallFlags ctx AND f\<rparr> # istack w
       \<and> Invocations (snd (contractCallExInternal x w h meth args f))
           = (Invocations w)(u := Invocations w u + 1)
       \<and> estack (snd (contractCallExInternal x w h meth args f)) = meth # args # estack w
       \<and> DAO (snd (contractCallExInternal x w h meth args f)) = DAO w
       \<and> Notifications (snd (contractCallExInternal x w h meth args f)) = Notifications w"
  using assms
  by (auto simp: contractCallExInternal_def Let_def LoadScriptWithHash_def PushVal_def
      split: sum.splits option.splits if_splits)

theorem call_effects_witness:
  "istack (snd (contractCallExInternal test_externals (test_world 10 5 5 [BigInteger 42])
       (replicate 20 2) (ByteArray [2]) (Array [BigInteger 1]) 6))
     = [\<lparr>ctx_Script = [33], ctx_ScriptHash = Abs_Uint160 (replicate 20 2), CallFlags = 4\<rparr>,
        \<lparr>ctx_Script = [33], ctx_ScriptHash = Abs_Uint160 (replicate 20 2), CallFlags = 5\<rparr>] \<and>
   Invocations (snd (contractCallExInternal test_externals (test_world 10 5 5 [BigInteger 42])
       (replicate 20 2) (ByteArray [2]) (Array [BigInteger 1]) 6)) (Abs_Uint160 (replicate 20 2)) = 1 \<and>
   estack (snd (contractCallExInternal test_externals (test_world 10 5 5 [BigInteger 42])
       (replicate 20 2) (ByteArray [2]) (Array [BigInteger 1]) 6))
     = [ByteArray [2], Array [BigInteger 1], BigInteger 42]"
proof -
  let ?w = "test_world 10 5 5 [BigInteger 42]"
  have ok: "fst (contractCallExInternal test_externals ?w (replicate 20 2)
          (ByteArray [2]) (Array [BigInteger 1]) 6) = Ok ()"
    by (simp add: contractCallExInternal_def test_decode160 test_contract_state test_TryBytes
      test_Context Let_def) (simp add: test_externals_def)
  have d: "Uint160DecodeBytesBE (replicate 20 2) = Inr (Abs_Uint160 (replicate 20 2))"
    by (simp add: test_decode160)
  have f: "(5 :: 8 word) AND 6 = 4" by simp
  have ctx: "Context_of ?w = Some \<lparr>ctx_Script = [33],
      ctx_ScriptHash = Abs_Uint160 (replicate 20 2), CallFlags = 5\<rparr>"
    by (rule test_Context)
  have cs: "GetContractState (DAO ?w) (Abs_Uint160 (replicate 20 2)) = Some (test_contract 5)"
    by (rule test_contract_state)
  from call_effects [OF ctx d cs ok] show ?thesis
    by (simp add: f) (simp add: test_world_def test_contract_def)
qed

section \<open>Properties of notifications\<close>

text \<open>
  Claim C8. With an item on the evaluation stack and a current frame,
  \<open>runtimeNotify\<close> returns without error, pops that one item and appends one
  notification with the current script hash to the ones recorded before. Its payload is
  the popped item itself when the item serializes (so both serialize to the same bytes),
  and the byte string "bad notification: " followed by the text of the error when
  serialization fails.
\<close>

theorem notify_records:
  assumes "estack w = i # s"
    and "GetCurrentScriptHash w = Some h"
  shows "fst (runtimeNotify x w) = Ok ()
       \<and> estack (snd (runtimeNotify x w)) = s
       \<and> (\<exists>p. Notifications (snd (runtimeNotify x w))
                 = Notifications w @ [\<lparr>ScriptHash = h, Item = p\<rparr>] \<and>
              (\<forall>b. SerializeItem x i = Inr b \<longrightarrow> p = i \<and> SerializeItem x p = Inr b) \<and>
              (\<forall>err. SerializeItem x i = Inl err \<longrightarrow>
                 p = ByteArray (bytes_of_string (''bad notification: '' @ err))))"
  using assms
  by (auto simp: runtimeNotify_def PopItem_def Let_def split: sum.splits)

theorem notify_records_witness:
  "fst (runtimeNotify test_externals (test_world 10 5 5 [BigInteger 42, Null])) = Ok () \<and>
   estack (snd (runtimeNotify test_externals (test_world 10 5 5 [BigInteger 42, Null]))) = [Null] \<and>
   Notifications (snd (runtimeNotify test_externals (test_world 10 5 5 [BigInteger 42, Null])))
     = [\<lparr>ScriptHash = Abs_Uint160 (replicate 20 2), Item = BigInteger 42\<rparr>] \<and>
   Notifications (snd (runtimeNotify test_externals
        (test_world 10 5 5 [Interop (OtherRef 0)])))
     = [\<lparr>ScriptHash = Abs_Uint160 (replicate 20 2),
         Item = ByteArray (bytes_of_string ''bad notification: interop item'')\<rparr>]"
proof -
  let ?w1 = "test_world 10 5 5 [BigInteger 42, Null]"
  let ?w2 = "test_world 10 5 5 [Interop (OtherRef 0)]"
  have s1: "estack ?w1 = BigInteger 42 # [Null]" and s2: "estack ?w2 = Interop (OtherRef 0) # []"
    by (simp_all add: test_world_def)
  have h1: "GetCurrentScriptHash ?w1 = Some (Abs_Uint160 (replicate 20 2))"
    and h2: "GetCurrentScriptHash ?w2 = Some (Abs_Uint160 (replicate 20 2))"
    by (rule test_current)+
  have n1: "Notifications ?w1 = []" and n2: "Notifications ?w2 = []"
    by (simp_all add: test_world_def)
  have e1: "SerializeItem test_externals (BigInteger 42) = Inr []"
    and e2: "SerializeItem test_externals (Interop (OtherRef 0)) = Inl ''interop item''"
    by (simp_all add: test_externals_def)
  from notify_records [OF s1 h1, of test_externals] e1
  have A: "fst (runtimeNotify test_externals ?w1) = Ok () \<and>
           estack (snd (runtimeNotify test_externals ?w1)) = [Null] \<and>
           Notifications (snd (runtimeNotify test_externals ?w1))
             = [\<lparr>ScriptHash = Abs_Uint160 (replicate 20 2), Item = BigInteger 42\<rparr>]"
    by (auto simp: n1)
  from notify_records [OF s2 h2, of test_externals] e2
  have B: "Notifications (snd (runtimeNotify test_externals ?w2))
             = [\<lparr>ScriptHash = Abs_Uint160 (replicate 20 2),
                 Item = ByteArray (bytes_of_string ''bad notification: interop item'')\<rparr>]"
    by (auto simp: n2)
  from A B show ?thesis by simp
qed

section \<open>Transactions of a block\<close>

text \<open>
  \<open>bcGetTransactionFromBlock\<close> on a target that resolves to the stored block \<open>b\<close>,
  with the index as the handler reads it: when \<open>b\<close> is not traceable, the handler
  pushes null and leaves the rest of the stack, the transaction index included, where it
  is, whatever lies there; when \<open>b\<close> is traceable, the next element is popped and its
  integer is read with \<open>Int64\<close>. A value read from 0 up to the number of transactions
  of \<open>b\<close> selects a transaction, and the handler pushes a byte string with its hash, 32
  bytes in big-endian order, which is not the array that \<open>transactionToStackItem\<close>
  makes of a transaction. A value read that is negative, or at least the number of
  transactions, is the error "wrong transaction index".
\<close>

theorem tx_from_block:
  assumes "estack w = e # s"
    and "getBlockHashFromElement x (Chain w) e = Ok hash"
    and "GetBlock (DAO w) hash = Some b"
  shows "(\<not> isTraceableBlock x w (Block_Index b)
          \<longrightarrow> bcGetTransactionFromBlock x w = (Ok (), w\<lparr>estack := Null # s\<rparr>))
       \<and> (isTraceableBlock x w (Block_Index b) \<and> s = ie # s' \<and> BigInt x ie = Some n \<and>
          0 \<le> sint (Int64 n) \<and> sint (Int64 n) < int (length (Transactions b))
          \<longrightarrow> bcGetTransactionFromBlock x w
                = (Ok (), w\<lparr>estack := ByteArray (BytesBE256
                     (tx_Hash (Transactions b ! nat (sint (Int64 n))))) # s'\<rparr>)
              \<and> length (BytesBE256 (tx_Hash (Transactions b ! nat (sint (Int64 n))))) = 32
              \<and> ByteArray (BytesBE256 (tx_Hash (Transactions b ! nat (sint (Int64 n)))))
                  \<noteq> transactionToStackItem (Transactions b ! nat (sint (Int64 n))))
       \<and> (isTraceableBlock x w (Block_Index b) \<and> s = ie # s' \<and> BigInt x ie = Some n \<and>
          (sint (Int64 n) < 0 \<or> sint (Int64 n) \<ge> int (length (Transactions b)))
          \<longrightarrow> bcGetTransactionFromBlock x w
                = (Err (Error ''wrong transaction index''), w\<lparr>estack := s'\<rparr>))"
  using assms
  by (auto simp: bcGetTransactionFromBlock_def PopItem_def PopBigInt_def Let_def
      length_BytesBE256 transactionToStackItem_def)

theorem tx_from_block_witness:
  "bcGetTransactionFromBlock test_externals
       (test_world 10 5 5 [ByteArray (replicate 32 1), BigInteger 0])
     = (Ok (), (test_world 10 5 5 [ByteArray (replicate 32 1), BigInteger 0])
                 \<lparr>estack := [ByteArray (replicate 32 3)]\<rparr>) \<and>
   bcGetTransactionFromBlock test_externals
       (test_world 10 5 5 [ByteArray (replicate 32 1), BigInteger 1])
     = (Err (Error ''wrong transaction index''),
        (test_world 10 5 5 [ByteArray (replicate 32 1), BigInteger 1])\<lparr>estack := []\<rparr>) \<and>
   bcGetTransactionFromBlock test_externals
       (test_world 10 5 5 [ByteArray (replicate 32 1), BigInteger (- 1)])
     = (Err (Error ''wrong transaction index''),
        (test_world 10 5 5 [ByteArray (replicate 32 1), BigInteger (- 1)])\<lparr>estack := []\<rparr>) \<and>
   bcGetTransactionFromBlock test_externals
       (test_world 10 15 5 [ByteArray (replicate 32 1), BigInteger 7])
     = (Ok (), (test_world 10 15 5 [ByteArray (replicate 32 1), BigInteger 7])
                 \<lparr>estack := [Null, BigInteger 7]\<rparr>)"
proof -
  let ?x = test_externals
  let ?e = "ByteArray (replicate 32 1)"
  let ?h = "Abs_Uint256 (replicate 32 1)"
  let ?w0 = "test_world 10 5 5 [?e, BigInteger 0]"
  let ?w1 = "test_world 10 5 5 [?e, BigInteger 1]"
  let ?wm = "test_world 10 5 5 [?e, BigInteger (- 1)]"
  let ?wn = "test_world 10 15 5 [?e, BigInteger 7]"
  have s0: "estack ?w0 = ?e # [BigInteger 0]" and s1: "estack ?w1 = ?e # [BigInteger 1]"
    and sm: "estack ?wm = ?e # [BigInteger (- 1)]" and sn: "estack ?wn = ?e # [BigInteger 7]"
    by (simp_all add: test_world_def)
  have r0: "getBlockHashFromElement ?x (Chain ?w0) ?e = Ok ?h"
    and r1: "getBlockHashFromElement ?x (Chain ?w1) ?e = Ok ?h"
    and rm: "getBlockHashFromElement ?x (Chain ?wm) ?e = Ok ?h"
    and rn: "getBlockHashFromElement ?x (Chain ?wn) ?e = Ok ?h"
    by (rule test_resolve_block)+
  have b0: "GetBlock (DAO ?w0) ?h = Some (test_block 5)"
    and b1: "GetBlock (DAO ?w1) ?h = Some (test_block 5)"
    and bm: "GetBlock (DAO ?wm) ?h = Some (test_block 5)"
    and bn: "GetBlock (DAO ?wn) ?h = Some (test_block 15)"
    by (rule test_dao_block)+
  have t0: "isTraceableBlock ?x ?w0 (Block_Index (test_block 5))"
    and t1: "isTraceableBlock ?x ?w1 (Block_Index (test_block 5))"
    and tm: "isTraceableBlock ?x ?wm (Block_Index (test_block 5))"
    and tn: "\<not> isTraceableBlock ?x ?wn (Block_Index (test_block 15))"
    using test_traceable test_not_traceable by (simp_all add: test_block_def)
  have i0: "sint (Int64 0) = 0" and i1: "sint (Int64 1) = 1" and im: "sint (Int64 (- 1)) = - 1"
    by (simp_all add: Int64_def)
  have txs: "Transactions (test_block 5) = [test_tx]"
    by (simp add: test_block_def)
  have hb: "BytesBE256 (tx_Hash test_tx) = replicate 32 3"
    by (simp add: test_tx_def BytesBE256_Abs)
  from tx_from_block [OF s0 r0 b0, where ie = "BigInteger 0" and s' = "[]" and n = 0]
    t0 test_BigInt [of 0]
  have A: "bcGetTransactionFromBlock ?x ?w0 = (Ok (), ?w0\<lparr>estack := [ByteArray (replicate 32 3)]\<rparr>)"
    by (simp add: i0 txs hb)
  from tx_from_block [OF s1 r1 b1, where ie = "BigInteger 1" and s' = "[]" and n = 1]
    t1 test_BigInt [of 1]
  have B: "bcGetTransactionFromBlock ?x ?w1
             = (Err (Error ''wrong transaction index''), ?w1\<lparr>estack := []\<rparr>)"
    by (simp add: i1 txs)
  from tx_from_block [OF sm rm bm, where ie = "BigInteger (- 1)" and s' = "[]" and n = "- 1"]
    tm test_BigInt [of "- 1"]
  have C: "bcGetTransactionFromBlock ?x ?wm
             = (Err (Error ''wrong transaction index''), ?wm\<lparr>estack := []\<rparr>)"
    by (simp add: im txs)
  from tx_from_block [OF sn rn bn] tn
  have D: "bcGetTransactionFromBlock ?x ?wn = (Ok (), ?wn\<lparr>estack := [Null, BigInteger 7]\<rparr>)"
    by simp
  from A B C D show ?thesis by simp
qed

text \<open>
  Claim C10. The claim is that on a traceable block the handler pushes the hash of the
  selected transaction, that the index is popped and checked only after the
  traceability test, and that an index that is negative or at least the number of
  transactions of the block is a fault. The handler checks the bounds of the \<open>int64\<close>
  that \<open>Int64\<close> makes of the popped integer, which keeps the low 64 bits only. In a
  traceable block with one transaction the index \<open>2^64\<close>, which is at least the number
  of transactions, is read as 0: the handler returns without error and pushes the hash
  of the first transaction. The negative index \<open>-(2^64)\<close> is read as 0 and accepted in
  the same way.
\<close>

theorem tx_index_beyond_int64_accepted:
  "int (length (Transactions (test_block 5))) \<le> 18446744073709551616 \<and>
   bcGetTransactionFromBlock test_externals
       (test_world 10 5 5 [ByteArray (replicate 32 1), BigInteger 18446744073709551616])
     = (Ok (), (test_world 10 5 5 [ByteArray (replicate 32 1), BigInteger 18446744073709551616])
                 \<lparr>estack := [ByteArray (BytesBE256 (tx_Hash test_tx))]\<rparr>) \<and>
   (- 18446744073709551616 :: int) < 0 \<and>
   bcGetTransactionFromBlock test_externals
       (test_world 10 5 5 [ByteArray (replicate 32 1), BigInteger (- 18446744073709551616)])
     = (Ok (), (test_world 10 5 5 [ByteArray (replicate 32 1), BigInteger (- 18446744073709551616)])
                 \<lparr>estack := [ByteArray (BytesBE256 (tx_Hash test_tx))]\<rparr>)"
proof -
  let ?x = test_externals
  let ?e = "ByteArray (replicate 32 1)"
  let ?h = "Abs_Uint256 (replicate 32 1)"
  let ?wp = "test_world 10 5 5 [?e, BigInteger 18446744073709551616]"
  let ?wm = "test_world 10 5 5 [?e, BigInteger (- 18446744073709551616)]"
  have ip: "sint (Int64 18446744073709551616) = 0"
    and im: "sint (Int64 (- 18446744073709551616)) = 0"
    by (simp_all add: Int64_def)
  have txs: "Transactions (test_block 5) = [test_tx]"
    by (simp add: test_block_def)
  have rp: "getBlockHashFromElement ?x (Chain ?wp) ?e = Ok ?h"
    and rm: "getBlockHashFromElement ?x (Chain ?wm) ?e = Ok ?h"
    by (rule test_resolve_block)+
  have bp: "GetBlock (DAO ?wp) ?h = Some (test_block 5)"
    and bm: "GetBlock (DAO ?wm) ?h = Some (test_block 5)"
    by (rule test_dao_block)+
  have tp: "isTraceableBlock ?x ?wp (Block_Index (test_block 5))"
    and tm: "isTraceableBlock ?x ?wm (Block_Index (test_block 5))"
    using test_traceable by (simp_all add: test_block_def)
  have sp: "estack ?wp = ?e # [BigInteger 18446744073709551616]"
    and sm: "estack ?wm = ?e # [BigInteger (- 18446744073709551616)]"
    by (simp_all add: test_world_def)
  from tx_from_block [OF sp rp bp, where ie = "BigInteger 18446744073709551616"
      and s' = "[]" and n = 18446744073709551616] tp test_BigInt [of 18446744073709551616]
  have A: "bcGetTransactionFromBlock ?x ?wp
             = (Ok (), ?wp\<lparr>estack := [ByteArray (BytesBE256 (tx_Hash test_tx))]\<rparr>)"
    by (simp add: ip txs)
  from tx_from_block [OF sm rm bm, where ie = "BigInteger (- 18446744073709551616)"
      and s' = "[]" and n = "- 18446744073709551616"] tm
    test_BigInt [of "- 18446744073709551616"]
  have B: "bcGetTransactionFromBlock ?x ?wm
             = (Ok (), ?wm\<lparr>estack := [ByteArray (BytesBE256 (tx_Hash test_tx))]\<rparr>)"
    by (simp add: im txs)
  from A B show ?thesis by (simp add: txs)
qed

end
